theory Spec2Isabelle
  imports Complex_Main
begin

section \<open>Python values and exceptions\<close>

text \<open>
  The client in \<^verbatim>\<open>gnosis/eth/clients/sourcify.py\<close> handles whatever \<^verbatim>\<open>response.json()\<close>
  returns, so the model works on Python values as the JSON decoder produces them:
  \<^verbatim>\<open>None\<close>, booleans, unbounded integers, floats (a finite float is a rational number; the
  code only tests a float for being zero, and a float that is not finite tests true like any
  other float that is not zero), strings, lists and dicts. A dict is given by its items in
  insertion order; its keys are strings and are pairwise distinct.
\<close>

datatype pyval =
    PNone
  | PBool bool
  | PInt int
  | PFloat rat
  | PStr string
  | PList "pyval list"
  | PDict "(string \<times> pyval) list"

text \<open>
  Every \<^verbatim>\<open>raise\<close> the method can run into is a value: the failed \<^verbatim>\<open>assert\<close>, the
  exceptions of \<^verbatim>\<open>requests\<close> for a connection that fails or times out, the decoder's
  error for a body that is not JSON, and the lookup errors of subscripting and attribute
  access.
\<close>

datatype error =
    AssertionError
  | ConnectionError
  | Timeout
  | JSONDecodeError
  | KeyError string
  | TypeError
  | AttributeError

text \<open>Truth value testing, as \<^verbatim>\<open>if metadata:\<close> and \<^verbatim>\<open>if values:\<close> do it.\<close>

fun truthy :: "pyval \<Rightarrow> bool" where
  "truthy PNone = False"
| "truthy (PBool b) = b"
| "truthy (PInt i) = (i \<noteq> 0)"
| "truthy (PFloat r) = (r \<noteq> 0)"
| "truthy (PStr s) = (s \<noteq> [])"
| "truthy (PList xs) = (xs \<noteq> [])"
| "truthy (PDict kvs) = (kvs \<noteq> [])"

text \<open>
  \<^verbatim>\<open>v[key]\<close> with a string key: a dict yields the value or raises \<^verbatim>\<open>KeyError\<close>; no other
  JSON value can be subscripted with a string (\<^verbatim>\<open>TypeError\<close>).
\<close>

fun getitem :: "pyval \<Rightarrow> string \<Rightarrow> error + pyval" where
  "getitem (PDict kvs) key =
     (case map_of kvs key of None \<Rightarrow> Inl (KeyError key) | Some v \<Rightarrow> Inr v)"
| "getitem PNone key = Inl TypeError"
| "getitem (PBool b) key = Inl TypeError"
| "getitem (PInt i) key = Inl TypeError"
| "getitem (PFloat r) key = Inl TypeError"
| "getitem (PStr s) key = Inl TypeError"
| "getitem (PList xs) key = Inl TypeError"

text \<open>\<^verbatim>\<open>v.get(key, default)\<close>: only a dict has the attribute.\<close>

fun dict_get :: "pyval \<Rightarrow> string \<Rightarrow> pyval \<Rightarrow> error + pyval" where
  "dict_get (PDict kvs) key dflt =
     (case map_of kvs key of None \<Rightarrow> Inr dflt | Some v \<Rightarrow> Inr v)"
| "dict_get PNone key dflt = Inl AttributeError"
| "dict_get (PBool b) key dflt = Inl AttributeError"
| "dict_get (PInt i) key dflt = Inl AttributeError"
| "dict_get (PFloat r) key dflt = Inl AttributeError"
| "dict_get (PStr s) key dflt = Inl AttributeError"
| "dict_get (PList xs) key dflt = Inl AttributeError"

text \<open>\<^verbatim>\<open>list(v.values())\<close>: the values in insertion order; only a dict has the attribute.\<close>

fun dict_values :: "pyval \<Rightarrow> error + pyval list" where
  "dict_values (PDict kvs) = Inr (map snd kvs)"
| "dict_values PNone = Inl AttributeError"
| "dict_values (PBool b) = Inl AttributeError"
| "dict_values (PInt i) = Inl AttributeError"
| "dict_values (PFloat r) = Inl AttributeError"
| "dict_values (PStr s) = Inl AttributeError"
| "dict_values (PList xs) = Inl AttributeError"

section \<open>Formatting and URL joining\<close>

text \<open>\<^verbatim>\<open>str\<close> of an integer, as the f-string formats \<^verbatim>\<open>self.network.value\<close>.\<close>

definition digit_char :: "nat \<Rightarrow> char" where
  "digit_char d = ''0123456789'' ! d"

function str_nat :: "nat \<Rightarrow> string" where
  "str_nat n = (if n < 10 then [digit_char n] else str_nat (n div 10) @ [digit_char (n mod 10)])"
  by pat_completeness auto
termination
  by (relation "measure id") auto

declare str_nat.simps [simp del]

definition str_int :: "int \<Rightarrow> string" where
  "str_int i = (if i < 0 then CHR ''-'' # str_nat (nat (- i)) else str_nat (nat i))"

text \<open>
  \<^verbatim>\<open>urllib.parse.urljoin(base, url)\<close> of the standard library, for the references this
  client builds: \<^verbatim>\<open>url\<close> is an absolute path (one leading slash) without query, fragment,
  parameters or dot segments. The base is split as \<^verbatim>\<open>urlsplit\<close> does: a scheme is the text
  before the first colon when it starts with a letter and consists of scheme characters, and
  it is lower-cased; a network location follows a leading \<^verbatim>\<open>//\<close> and ends before the first of
  \<^verbatim>\<open>/\<close>, \<^verbatim>\<open>?\<close>, \<^verbatim>\<open>#\<close>. The reference has no scheme of its own, so it inherits the base's; when
  that scheme does not allow relative references the reference is returned as it is;
  otherwise the base's path, query and fragment are dropped and the result is put together
  as \<^verbatim>\<open>urlunsplit\<close> does. This is the library's function for a base written with plain URL
  characters and an address of letters and digits; statements about the value of a URL
  carry these two conditions. Other bases are outside the model: the library strips white
  space and control characters, and raises \<^verbatim>\<open>ValueError\<close> for a bracket without its partner
  and for some hosts outside ASCII.
\<close>

definition ascii_letters :: string where
  "ascii_letters = ''abcdefghijklmnopqrstuvwxyzABCDEFGHIJKLMNOPQRSTUVWXYZ''"

definition scheme_chars :: string where
  "scheme_chars = ascii_letters @ ''0123456789+-.''"

definition lower_char :: "char \<Rightarrow> char" where
  "lower_char c =
     (case map_of (zip ''ABCDEFGHIJKLMNOPQRSTUVWXYZ'' ''abcdefghijklmnopqrstuvwxyz'') c of
        None \<Rightarrow> c | Some d \<Rightarrow> d)"

definition uses_relative :: "string list" where
  "uses_relative = ['''', ''ftp'', ''http'', ''gopher'', ''nntp'', ''imap'', ''wais'', ''file'',
     ''https'', ''shttp'', ''mms'', ''prospero'', ''rtsp'', ''rtspu'', ''sftp'', ''svn'',
     ''svn+ssh'', ''ws'', ''wss'']"

definition split_scheme :: "string \<Rightarrow> string \<times> string" where
  "split_scheme u =
     (let pre = takeWhile (\<lambda>c. c \<noteq> CHR '':'') u in
      if CHR '':'' \<in> set u \<and> pre \<noteq> [] \<and> hd pre \<in> set ascii_letters
         \<and> list_all (\<lambda>c. c \<in> set scheme_chars) pre
      then (map lower_char pre, tl (dropWhile (\<lambda>c. c \<noteq> CHR '':'') u))
      else ('''', u))"

definition split_netloc :: "string \<Rightarrow> string" where
  "split_netloc u =
     (if take 2 u = ''//'' then takeWhile (\<lambda>c. c \<notin> set ''/?#'') (drop 2 u) else '''')"

definition urljoin :: "string \<Rightarrow> string \<Rightarrow> string" where
  "urljoin base u =
     (if base = [] then u
      else if u = [] then base
      else let (bscheme, rest) = split_scheme base; bnetloc = split_netloc rest in
        if bscheme \<notin> set uses_relative then u
        else (if bscheme \<noteq> [] then bscheme @ '':'' else '''')
           @ (if bnetloc \<noteq> [] \<or> bscheme \<noteq> [] then ''//'' @ bnetloc else '''')
           @ u)"

section \<open>The Sourcify client\<close>

text \<open>
  The object: \<^verbatim>\<open>network\<close> is the value of the \<^verbatim>\<open>EthereumNetwork\<close> member (the chain id),
  \<^verbatim>\<open>http_session\<close> is the reference to the session object made by the constructor.
\<close>

record sourcify =
  network :: int
  base_url :: string
  http_session :: nat
  request_timeout :: int

text \<open>
  A response of \<^verbatim>\<open>requests\<close>, as far as the client reads it: the status code behind
  the attribute \<^verbatim>\<open>ok\<close> and the outcome of \<^verbatim>\<open>json()\<close>, which raises when the body is not a
  JSON document.
\<close>

record response =
  status_code :: int
  json :: "error + pyval"

text \<open>
  The attribute \<^verbatim>\<open>ok\<close> is a property of the library: it is false exactly when
  \<^verbatim>\<open>raise_for_status()\<close> raises, which it does for the client errors (400 to 499) and the
  server errors (500 to 599). Every other status, 2xx or not, makes the response \<^verbatim>\<open>ok\<close>.
\<close>

definition ok :: "response \<Rightarrow> bool" where
  "ok r = (\<not> (400 \<le> status_code r \<and> status_code r < 600))"

text \<open>One call \<^verbatim>\<open>session.get(url, timeout=t)\<close>.\<close>

record get_call =
  session :: nat
  url :: string
  timeout :: int

text \<open>
  The collaborators that are not part of this module: the checksum validator
  \<^verbatim>\<open>fast_is_checksum_address\<close> and the network. A GET raises or returns a response, and what
  it does may depend on the calls made before it.
\<close>

record env =
  fast_is_checksum_address :: "string \<Rightarrow> bool"
  http_get :: "get_call list \<Rightarrow> get_call \<Rightarrow> error + response"

text \<open>
  The state the method runs in: the object itself and the GETs issued so far, oldest first.
\<close>

record state =
  self :: sourcify
  requests :: "get_call list"

text \<open>
  Modelled from the spec: the class \<^verbatim>\<open>ContractMetadata\<close> of \<^verbatim>\<open>contract_metadata.py\<close>, which
  the spec gives as the record of name, abi and the partial-match flag. The fields hold
  whatever the document held at those places.
\<close>

record contract_metadata =
  name :: pyval
  abi :: pyval
  partial_match :: bool

definition get_abi_from_metadata :: "pyval \<Rightarrow> error + pyval" where
  "get_abi_from_metadata metadata =
     (case getitem metadata ''output'' of
        Inl e \<Rightarrow> Inl e
      | Inr output \<Rightarrow> getitem output ''abi'')"

definition get_name_from_metadata :: "pyval \<Rightarrow> error + pyval" where
  "get_name_from_metadata metadata =
     (case getitem metadata ''settings'' of
        Inl e \<Rightarrow> Inl e
      | Inr settings \<Rightarrow>
          (case dict_get settings ''compilationTarget'' (PDict []) of
             Inl e \<Rightarrow> Inl e
           | Inr target \<Rightarrow>
               (case dict_values target of
                  Inl e \<Rightarrow> Inl e
                | Inr vals \<Rightarrow> if vals \<noteq> [] then Inr (hd vals) else Inr PNone)))"

definition the_call :: "state \<Rightarrow> string \<Rightarrow> get_call" where
  "the_call s u =
     \<lparr>session = http_session (self s), url = u, timeout = request_timeout (self s)\<rparr>"

definition do_request :: "env \<Rightarrow> state \<Rightarrow> string \<Rightarrow> (error + pyval) \<times> state" where
  "do_request E s u =
     (let c = the_call s u; s' = s\<lparr>requests := requests s @ [c]\<rparr> in
      case http_get E (requests s) c of
        Inl e \<Rightarrow> (Inl e, s')
      | Inr r \<Rightarrow> if \<not> ok r then (Inr PNone, s') else (json r, s'))"

definition metadata_path :: "string \<Rightarrow> int \<Rightarrow> string \<Rightarrow> string" where
  "metadata_path match_type net contract_address =
     ''/contracts/'' @ match_type @ ''/'' @ str_int net @ ''/'' @ contract_address
       @ ''/metadata.json''"

definition metadata_url :: "sourcify \<Rightarrow> string \<Rightarrow> string \<Rightarrow> string" where
  "metadata_url obj match_type contract_address =
     urljoin (base_url obj) (metadata_path match_type (network obj) contract_address)"

text \<open>The body of the \<^verbatim>\<open>for\<close> loop, over the match types still to try.\<close>

fun try_match_types ::
  "env \<Rightarrow> string \<Rightarrow> string list \<Rightarrow> state \<Rightarrow> (error + contract_metadata option) \<times> state" where
  "try_match_types E contract_address [] s = (Inr None, s)"
| "try_match_types E contract_address (match_type # rest) s =
     (case do_request E s (metadata_url (self s) match_type contract_address) of
        (Inl e, s') \<Rightarrow> (Inl e, s')
      | (Inr metadata, s') \<Rightarrow>
          if truthy metadata then
            (case get_abi_from_metadata metadata of
               Inl e \<Rightarrow> (Inl e, s')
             | Inr a \<Rightarrow>
                 (case get_name_from_metadata metadata of
                    Inl e \<Rightarrow> (Inl e, s')
                  | Inr n \<Rightarrow>
                      (Inr (Some \<lparr>name = n, abi = a,
                                  partial_match = (match_type = ''partial_match'')\<rparr>), s')))
          else try_match_types E contract_address rest s')"

definition get_contract_metadata ::
  "env \<Rightarrow> state \<Rightarrow> string \<Rightarrow> (error + contract_metadata option) \<times> state" where
  "get_contract_metadata E s contract_address =
     (if \<not> fast_is_checksum_address E contract_address then (Inl AssertionError, s)
      else try_match_types E contract_address [''full_match'', ''partial_match''] s)"

section \<open>Notions used in the statements\<close>

text \<open>The two GETs of a call, as the session sees them.\<close>

definition full_match_call :: "state \<Rightarrow> string \<Rightarrow> get_call" where
  "full_match_call s a = the_call s (metadata_url (self s) ''full_match'' a)"

definition partial_match_call :: "state \<Rightarrow> string \<Rightarrow> get_call" where
  "partial_match_call s a = the_call s (metadata_url (self s) ''partial_match'' a)"

text \<open>
  An attempt gives no document when the GET returns a response that is not \<^verbatim>\<open>ok\<close>, or an
  \<^verbatim>\<open>ok\<close> response whose body decodes to a value that tests false.
\<close>

definition no_document :: "error + response \<Rightarrow> bool" where
  "no_document x =
     (case x of
        Inl e \<Rightarrow> False
      | Inr r \<Rightarrow> \<not> ok r \<or> (case json r of Inl e \<Rightarrow> False | Inr v \<Rightarrow> \<not> truthy v))"

text \<open>What the loop body makes of a document that tests true.\<close>

definition build_record :: "string \<Rightarrow> pyval \<Rightarrow> error + contract_metadata option" where
  "build_record match_type metadata =
     (case get_abi_from_metadata metadata of
        Inl e \<Rightarrow> Inl e
      | Inr a \<Rightarrow>
          (case get_name_from_metadata metadata of
             Inl e \<Rightarrow> Inl e
           | Inr n \<Rightarrow> Inr (Some \<lparr>name = n, abi = a,
                                  partial_match = (match_type = ''partial_match'')\<rparr>)))"

text \<open>
  The document has the field the extraction of the ABI reads: it is a dict whose \<^verbatim>\<open>output\<close>
  is a dict with the key \<^verbatim>\<open>abi\<close>.
\<close>

definition has_output_abi :: "pyval \<Rightarrow> bool" where
  "has_output_abi v =
     (case v of
        PDict kvs \<Rightarrow>
          (case map_of kvs ''output'' of
             Some (PDict output) \<Rightarrow> map_of output ''abi'' \<noteq> None
           | _ \<Rightarrow> False)
      | _ \<Rightarrow> False)"

text \<open>
  A malformed success: the response is \<^verbatim>\<open>ok\<close> and its body is not JSON, or decodes to a
  value that tests true and lacks \<^verbatim>\<open>output.abi\<close>.
\<close>

definition malformed :: "response \<Rightarrow> bool" where
  "malformed r =
     (ok r \<and> (case json r of Inl e \<Rightarrow> True | Inr v \<Rightarrow> truthy v \<and> \<not> has_output_abi v))"

text \<open>The environment that differs from \<open>E\<close> in the answer to one GET.\<close>

definition with_response :: "env \<Rightarrow> get_call list \<Rightarrow> get_call \<Rightarrow> response \<Rightarrow> env" where
  "with_response E earlier c r =
     E\<lparr>http_get := (\<lambda>h c'. if h = earlier \<and> c' = c then Inr r else http_get E h c')\<rparr>"

text \<open>The member of a JSON object under a key; a value that is no object has none.\<close>

definition field :: "pyval \<Rightarrow> string \<Rightarrow> pyval option" where
  "field v key = (case v of PDict kvs \<Rightarrow> map_of kvs key | _ \<Rightarrow> None)"

text \<open>
  The document that the last GET of a run returned, read off the final state: the answer of
  the environment to the last request, given the requests before it.
\<close>

definition last_document :: "env \<Rightarrow> state \<Rightarrow> pyval option" where
  "last_document E s' =
     (if requests s' = [] then None
      else case http_get E (butlast (requests s')) (last (requests s')) of
             Inl e \<Rightarrow> None
           | Inr r \<Rightarrow> (case json r of Inl e \<Rightarrow> None | Inr v \<Rightarrow> Some v))"






section \<open>Example inputs\<close>

text \<open>
  An environment that answers the successive GETs from a script, whatever the URL, and
  refuses the connection once the script is used up.
\<close>

definition scripted_env :: "(string \<Rightarrow> bool) \<Rightarrow> (error + response) list \<Rightarrow> env" where
  "scripted_env valid outcomes =
     \<lparr>fast_is_checksum_address = valid,
      http_get = (\<lambda>earlier c. if length earlier < length outcomes then outcomes ! length earlier
                                else Inl ConnectionError)\<rparr>"

text \<open>A checksummed address (a test vector of EIP-55) and the client with its defaults.\<close>

definition example_address :: string where
  "example_address = ''0x5aAeb6053F3E94C9b9A09f33669435E7Ef1BeAed''"

definition example_client :: sourcify where
  "example_client =
     \<lparr>network = 1, base_url = ''https://repo.sourcify.dev/'', http_session = 0,
      request_timeout = 10\<rparr>"

definition example_state :: state where
  "example_state = \<lparr>self = example_client, requests = []\<rparr>"

definition not_found_response :: response where
  "not_found_response = \<lparr>status_code = 404, json = Inl JSONDecodeError\<rparr>"

definition example_document :: pyval where
  "example_document =
     PDict [(''output'', PDict [(''abi'', PList [PDict [(''type'', PStr ''fallback'')]])]),
            (''settings'', PDict [(''compilationTarget'',
               PDict [(''contracts/Token.sol'', PStr ''Token'')])])]"

text \<open>The validator of the examples accepts the example address and nothing else.\<close>

definition valid_example :: "string \<Rightarrow> bool" where
  "valid_example a = (a = example_address)"

text \<open>Both endpoints answer 404, with a body that is not JSON.\<close>

definition env_not_found :: env where
  "env_not_found = scripted_env valid_example [Inr not_found_response, Inr not_found_response]"

text \<open>The connection is refused at the first GET.\<close>

definition env_refused :: env where
  "env_refused = scripted_env valid_example [Inl ConnectionError]"

text \<open>The full-match endpoint answers 404 and the second GET times out.\<close>

definition env_timeout_on_partial :: env where
  "env_timeout_on_partial = scripted_env valid_example [Inr not_found_response, Inl Timeout]"

text \<open>A successful response carrying a document.\<close>

definition ok_response :: "pyval \<Rightarrow> response" where
  "ok_response v = \<lparr>status_code = 200, json = Inr v\<rparr>"

text \<open>The full-match endpoint has the example document.\<close>

definition env_full_match :: env where
  "env_full_match = scripted_env valid_example [Inr (ok_response example_document)]"


text \<open>Both endpoints answer 200 with the body \<^verbatim>\<open>{}\<close>.\<close>

definition env_empty_objects :: env where
  "env_empty_objects =
     scripted_env valid_example [Inr (ok_response (PDict [])), Inr (ok_response (PDict []))]"

text \<open>The full-match endpoint answers 200 with a document that has no \<^verbatim>\<open>output\<close>.\<close>

definition env_no_output :: env where
  "env_no_output =
     scripted_env valid_example
       [Inr (ok_response (PDict [(''settings'', PDict [])])), Inr not_found_response]"

text \<open>A 404, then a 200 whose body is not JSON.\<close>

definition env_html_on_partial :: env where
  "env_html_on_partial =
     scripted_env valid_example
       [Inr not_found_response, Inr \<lparr>status_code = 200, json = Inl JSONDecodeError\<rparr>]"

text \<open>A 200 with the body \<^verbatim>\<open>{}\<close>, then the example document.\<close>

definition env_empty_then_document :: env where
  "env_empty_then_document =
     scripted_env valid_example
       [Inr (ok_response (PDict [])), Inr (ok_response example_document)]"

text \<open>A 404, then a 200 with the body \<^verbatim>\<open>null\<close>.\<close>

definition env_null_on_partial :: env where
  "env_null_on_partial =
     scripted_env valid_example [Inr not_found_response, Inr (ok_response PNone)]"

text \<open>A document whose \<^verbatim>\<open>compilationTarget\<close> is the empty mapping, at the full-match endpoint.\<close>

definition document_empty_target :: pyval where
  "document_empty_target =
     PDict [(''output'', PDict [(''abi'', PList [PDict [(''type'', PStr ''fallback'')]])]),
            (''settings'', PDict [(''compilationTarget'', PDict [])])]"

definition env_empty_target :: env where
  "env_empty_target = scripted_env valid_example [Inr (ok_response document_empty_target)]"

text \<open>A document with \<^verbatim>\<open>output.abi\<close> and no \<^verbatim>\<open>settings\<close>, at either endpoint.\<close>

definition document_no_settings :: pyval where
  "document_no_settings =
     PDict [(''output'', PDict [(''abi'', PList [PDict [(''type'', PStr ''fallback'')]])])]"

definition env_no_settings :: env where
  "env_no_settings = scripted_env valid_example [Inr (ok_response document_no_settings)]"

definition env_no_settings_on_partial :: env where
  "env_no_settings_on_partial =
     scripted_env valid_example [Inr not_found_response, Inr (ok_response document_no_settings)]"

text \<open>A document whose \<^verbatim>\<open>compilationTarget\<close> has one entry, with the value \<^verbatim>\<open>null\<close>.\<close>

definition document_null_name :: pyval where
  "document_null_name =
     PDict [(''output'', PDict [(''abi'', PList [PDict [(''type'', PStr ''fallback'')]])]),
            (''settings'', PDict [(''compilationTarget'',
               PDict [(''contracts/Token.sol'', PNone)])])]"

definition env_null_name :: env where
  "env_null_name = scripted_env valid_example [Inr (ok_response document_null_name)]"



text \<open>Both endpoints answer 304 with an empty body.\<close>

definition not_modified_response :: response where
  "not_modified_response = \<lparr>status_code = 304, json = Inl JSONDecodeError\<rparr>"

definition env_not_modified :: env where
  "env_not_modified =
     scripted_env valid_example [Inr not_modified_response, Inr not_modified_response]"


section \<open>One attempt\<close>

lemma try_raises:
  "http_get E (requests s) (the_call s (metadata_url (self s) mt a)) = Inl e \<Longrightarrow>
   try_match_types E a (mt # rest) s =
     (Inl e, s\<lparr>requests := requests s @ [the_call s (metadata_url (self s) mt a)]\<rparr>)"
  by (simp add: do_request_def Let_def)

lemma try_no_document:
  "no_document (http_get E (requests s) (the_call s (metadata_url (self s) mt a))) \<Longrightarrow>
   try_match_types E a (mt # rest) s =
     try_match_types E a rest
       (s\<lparr>requests := requests s @ [the_call s (metadata_url (self s) mt a)]\<rparr>)"
  by (auto simp add: do_request_def Let_def no_document_def split: sum.splits)

lemma try_bad_json:
  "http_get E (requests s) (the_call s (metadata_url (self s) mt a)) = Inr r \<Longrightarrow>
   ok r \<Longrightarrow> json r = Inl e \<Longrightarrow>
   try_match_types E a (mt # rest) s =
     (Inl e, s\<lparr>requests := requests s @ [the_call s (metadata_url (self s) mt a)]\<rparr>)"
  by (simp add: do_request_def Let_def)

lemma try_document:
  "http_get E (requests s) (the_call s (metadata_url (self s) mt a)) = Inr r \<Longrightarrow>
   ok r \<Longrightarrow> json r = Inr v \<Longrightarrow> truthy v \<Longrightarrow>
   try_match_types E a (mt # rest) s =
     (build_record mt v,
      s\<lparr>requests := requests s @ [the_call s (metadata_url (self s) mt a)]\<rparr>)"
  by (simp add: do_request_def Let_def build_record_def split: sum.splits)

declare try_match_types.simps(2) [simp del]

lemma try_cases:
  obtains (raises) e where "http_get E (requests s) c = Inl e"
  | (bad_json) r e where "http_get E (requests s) c = Inr r" "ok r" "json r = Inl e"
  | (document) r v where "http_get E (requests s) c = Inr r" "ok r" "json r = Inr v" "truthy v"
  | (nothing) "no_document (http_get E (requests s) c)"
  by (cases "http_get E (requests s) c"; cases "json (projr (http_get E (requests s) c))")
     (auto simp: no_document_def)


lemma try_self: "self (snd (try_match_types E a ms s)) = self s"
proof (induction ms arbitrary: s)
  case Nil
  show ?case by simp
next
  case (Cons mt ms)
  let ?c = "the_call s (metadata_url (self s) mt a)"
  show ?case
  proof (cases rule: try_cases [of E s ?c])
    case (raises e)
    then show ?thesis by (simp add: try_raises)
  next
    case (bad_json r e)
    then show ?thesis by (simp add: try_bad_json)
  next
    case (document r v)
    then show ?thesis by (simp add: try_document)
  next
    case nothing
    then show ?thesis by (simp add: try_no_document Cons.IH)
  qed
qed

section \<open>The two attempts of a call\<close>

lemma partial_call_after:
  "the_call (s\<lparr>requests := q\<rparr>) u = the_call s u"
  by (simp add: the_call_def)

lemma gcm_full_raises:
  assumes "fast_is_checksum_address E a"
    and "http_get E (requests s) (full_match_call s a) = Inl e"
  shows "get_contract_metadata E s a = (Inl e, s\<lparr>requests := requests s @ [full_match_call s a]\<rparr>)"
  using assms by (simp add: get_contract_metadata_def full_match_call_def try_raises)

lemma gcm_full_nothing:
  assumes "fast_is_checksum_address E a"
    and "no_document (http_get E (requests s) (full_match_call s a))"
  shows "get_contract_metadata E s a =
     try_match_types E a [''partial_match''] (s\<lparr>requests := requests s @ [full_match_call s a]\<rparr>)"
  using assms by (simp add: get_contract_metadata_def full_match_call_def try_no_document)

lemma try_partial_raises:
  assumes "http_get E (requests s @ [full_match_call s a]) (partial_match_call s a) = Inl e"
  shows "try_match_types E a [''partial_match''] (s\<lparr>requests := requests s @ [full_match_call s a]\<rparr>)
     = (Inl e, s\<lparr>requests := requests s @ [full_match_call s a, partial_match_call s a]\<rparr>)"
  using assms
  by (simp add: try_raises partial_call_after partial_match_call_def)

lemma try_partial_nothing:
  assumes "no_document (http_get E (requests s @ [full_match_call s a]) (partial_match_call s a))"
  shows "try_match_types E a [''partial_match''] (s\<lparr>requests := requests s @ [full_match_call s a]\<rparr>)
     = (Inr None, s\<lparr>requests := requests s @ [full_match_call s a, partial_match_call s a]\<rparr>)"
  using assms
  by (simp add: try_no_document partial_call_after partial_match_call_def)

lemma try_partial_bad_json:
  assumes "http_get E (requests s @ [full_match_call s a]) (partial_match_call s a) = Inr r"
    "ok r" "json r = Inl e"
  shows "try_match_types E a [''partial_match''] (s\<lparr>requests := requests s @ [full_match_call s a]\<rparr>)
     = (Inl e, s\<lparr>requests := requests s @ [full_match_call s a, partial_match_call s a]\<rparr>)"
  using assms
  by (simp add: try_bad_json partial_call_after partial_match_call_def)

lemma try_partial_document:
  assumes "http_get E (requests s @ [full_match_call s a]) (partial_match_call s a) = Inr r"
    "ok r" "json r = Inr v" "truthy v"
  shows "try_match_types E a [''partial_match''] (s\<lparr>requests := requests s @ [full_match_call s a]\<rparr>)
     = (build_record ''partial_match'' v,
        s\<lparr>requests := requests s @ [full_match_call s a, partial_match_call s a]\<rparr>)"
  using assms
  by (simp add: try_document partial_call_after partial_match_call_def)


lemma gcm_full_bad_json:
  assumes "fast_is_checksum_address E a"
    and "http_get E (requests s) (full_match_call s a) = Inr r" "ok r" "json r = Inl e"
  shows "get_contract_metadata E s a = (Inl e, s\<lparr>requests := requests s @ [full_match_call s a]\<rparr>)"
  using assms by (simp add: get_contract_metadata_def full_match_call_def try_bad_json)

lemma gcm_full_document:
  assumes "fast_is_checksum_address E a"
    and "http_get E (requests s) (full_match_call s a) = Inr r" "ok r" "json r = Inr v" "truthy v"
  shows "get_contract_metadata E s a =
     (build_record ''full_match'' v, s\<lparr>requests := requests s @ [full_match_call s a]\<rparr>)"
  using assms by (simp add: get_contract_metadata_def full_match_call_def try_document)

lemma build_record_Some:
  "build_record mt v = Inr (Some m) \<Longrightarrow>
   partial_match m = (mt = ''partial_match'') \<and> get_abi_from_metadata v = Inr (abi m)
   \<and> get_name_from_metadata v = Inr (name m)"
  by (auto simp: build_record_def split: sum.splits)

lemma build_record_ok:
  "get_abi_from_metadata v = Inr ab \<Longrightarrow> get_name_from_metadata v = Inr n \<Longrightarrow>
   build_record mt v = Inr (Some \<lparr>name = n, abi = ab, partial_match = (mt = ''partial_match'')\<rparr>)"
  by (simp add: build_record_def)

lemma gcm_cases [consumes 1, case_names full_raises full_bad_json full_document
    partial_raises partial_bad_json partial_document neither]:
  assumes chk: "fast_is_checksum_address E a"
  obtains
    (full_raises) e where
      "http_get E (requests s) (full_match_call s a) = Inl e"
      "get_contract_metadata E s a =
         (Inl e, s\<lparr>requests := requests s @ [full_match_call s a]\<rparr>)"
  | (full_bad_json) r e where
      "http_get E (requests s) (full_match_call s a) = Inr r" "ok r" "json r = Inl e"
      "get_contract_metadata E s a =
         (Inl e, s\<lparr>requests := requests s @ [full_match_call s a]\<rparr>)"
  | (full_document) r v where
      "http_get E (requests s) (full_match_call s a) = Inr r" "ok r" "json r = Inr v" "truthy v"
      "get_contract_metadata E s a =
         (build_record ''full_match'' v, s\<lparr>requests := requests s @ [full_match_call s a]\<rparr>)"
  | (partial_raises) e where
      "no_document (http_get E (requests s) (full_match_call s a))"
      "http_get E (requests s @ [full_match_call s a]) (partial_match_call s a) = Inl e"
      "get_contract_metadata E s a =
         (Inl e, s\<lparr>requests := requests s @ [full_match_call s a, partial_match_call s a]\<rparr>)"
  | (partial_bad_json) r e where
      "no_document (http_get E (requests s) (full_match_call s a))"
      "http_get E (requests s @ [full_match_call s a]) (partial_match_call s a) = Inr r"
      "ok r" "json r = Inl e"
      "get_contract_metadata E s a =
         (Inl e, s\<lparr>requests := requests s @ [full_match_call s a, partial_match_call s a]\<rparr>)"
  | (partial_document) r v where
      "no_document (http_get E (requests s) (full_match_call s a))"
      "http_get E (requests s @ [full_match_call s a]) (partial_match_call s a) = Inr r"
      "ok r" "json r = Inr v" "truthy v"
      "get_contract_metadata E s a =
         (build_record ''partial_match'' v,
          s\<lparr>requests := requests s @ [full_match_call s a, partial_match_call s a]\<rparr>)"
  | (neither)
      "no_document (http_get E (requests s) (full_match_call s a))"
      "no_document (http_get E (requests s @ [full_match_call s a]) (partial_match_call s a))"
      "get_contract_metadata E s a =
         (Inr None, s\<lparr>requests := requests s @ [full_match_call s a, partial_match_call s a]\<rparr>)"
proof (cases rule: try_cases [of E s "full_match_call s a"])
  case (raises e)
  then show ?thesis using full_raises gcm_full_raises [OF chk] by blast
next
  case (bad_json r e)
  then show ?thesis using full_bad_json gcm_full_bad_json [OF chk] by blast
next
  case (document r v)
  then show ?thesis using full_document gcm_full_document [OF chk] by blast
next
  case first: nothing
  note go = gcm_full_nothing [OF chk first]
  let ?s1 = "s\<lparr>requests := requests s @ [full_match_call s a]\<rparr>"
  have q: "requests ?s1 = requests s @ [full_match_call s a]" by simp
  show ?thesis
  proof (cases rule: try_cases [of E ?s1 "partial_match_call s a"])
    case (raises e)
    then show ?thesis
      using partial_raises [of e] first go try_partial_raises [of E s a e] by (simp only: q)
  next
    case (bad_json r e)
    then show ?thesis
      using partial_bad_json [of r e] first go try_partial_bad_json [of E s a r e]
      by (simp only: q)
  next
    case (document r v)
    then show ?thesis
      using partial_document [of r v] first go try_partial_document [of E s a r v]
      by (simp only: q)
  next
    case nothing
    then show ?thesis
      using neither first go try_partial_nothing [of E s a] by (simp only: q)
  qed
qed


section \<open>Frame and precondition\<close>

text \<open>
  C10: every call leaves the client's configuration as it was: \<^verbatim>\<open>network\<close>, \<^verbatim>\<open>base_url\<close>,
  \<^verbatim>\<open>request_timeout\<close> and the \<^verbatim>\<open>http_session\<close> reference are the same after the call
  as before it, whether the call returns a record, returns \<^verbatim>\<open>None\<close> or raises.
\<close>

theorem configuration_unchanged:
  "network (self (snd (get_contract_metadata E s a))) = network (self s)
   \<and> base_url (self (snd (get_contract_metadata E s a))) = base_url (self s)
   \<and> request_timeout (self (snd (get_contract_metadata E s a))) = request_timeout (self s)
   \<and> http_session (self (snd (get_contract_metadata E s a))) = http_session (self s)"
  by (simp add: get_contract_metadata_def try_self)

text \<open>
  C3: an address that the checksum validation rejects makes the call fail at once with the
  assertion's error, before any GET: the state, and with it the list of requests, is the one
  the call started in.
\<close>

theorem invalid_address_fails_fast:
  "\<not> fast_is_checksum_address E a \<Longrightarrow>
   get_contract_metadata E s a = (Inl AssertionError, s)"
  by (simp add: get_contract_metadata_def)

theorem invalid_address_fails_fast_witness:
  "\<not> fast_is_checksum_address (scripted_env valid_example [])
        ''0x5aaeb6053f3e94c9b9a09f33669435e7ef1beaed''
   \<and> get_contract_metadata (scripted_env valid_example []) example_state
        ''0x5aaeb6053f3e94c9b9a09f33669435e7ef1beaed'' = (Inl AssertionError, example_state)"
  using invalid_address_fails_fast
    [of "scripted_env valid_example []"
        "''0x5aaeb6053f3e94c9b9a09f33669435e7ef1beaed''" example_state]
  by (simp add: scripted_env_def valid_example_def example_address_def)

section \<open>Evaluating the examples\<close>

lemma chk_scripted: "fast_is_checksum_address (scripted_env valid_example outs) example_address"
  by (simp add: scripted_env_def valid_example_def)

lemma get_scripted_first:
  "http_get (scripted_env valid (x # outs)) (requests example_state) c = x"
  by (simp add: scripted_env_def example_state_def)

lemma get_scripted_second:
  "http_get (scripted_env valid (x # y # outs)) (requests example_state @ [c']) c = y"
  by (simp add: scripted_env_def example_state_def)

lemma no_document_not_found: "no_document (Inr not_found_response)"
  by (simp add: no_document_def not_found_response_def ok_def)

section \<open>Absence and failures of the network\<close>

text \<open>
  C5, as the claim states it, fails: a status that is not a success need not be an error
  status. When both endpoints answer 304 with an empty body the responses are \<^verbatim>\<open>ok\<close> for the
  library, \<^verbatim>\<open>_do_request\<close> decodes the body of the first, and the call raises the decoder's
  error after one GET where the claim has it return \<^verbatim>\<open>None\<close>.
\<close>

theorem non_success_status_counterexample:
  "status_code not_modified_response = 304
   \<and> \<not> (200 \<le> status_code not_modified_response \<and> status_code not_modified_response < 300)
   \<and> http_get env_not_modified (requests example_state)
        (full_match_call example_state example_address) = Inr not_modified_response
   \<and> get_contract_metadata env_not_modified example_state example_address =
       (Inl JSONDecodeError,
        example_state\<lparr>requests := [full_match_call example_state example_address]\<rparr>)"
proof -
  have c: "fast_is_checksum_address env_not_modified example_address"
    by (simp add: env_not_modified_def chk_scripted)
  have g: "http_get env_not_modified (requests example_state)
      (full_match_call example_state example_address) = Inr not_modified_response"
    by (simp add: env_not_modified_def get_scripted_first)
  have d: "ok not_modified_response" "json not_modified_response = Inl JSONDecodeError"
    by (simp_all add: not_modified_response_def ok_def)
  show ?thesis
    using gcm_full_bad_json [OF c g d] g
    by (simp add: not_modified_response_def example_state_def)
qed

text \<open>
  C5, amended: when the full-match GET and the partial-match GET both return a response
  with an error status, 400 to 599, the call returns \<^verbatim>\<open>None\<close> and raises nothing; both
  GETs have been made.
\<close>

theorem both_error_statuses_give_None:
  assumes "fast_is_checksum_address E a"
    and "http_get E (requests s) (full_match_call s a) = Inr r1"
    and "400 \<le> status_code r1" and "status_code r1 < 600"
    and "http_get E (requests s @ [full_match_call s a]) (partial_match_call s a) = Inr r2"
    and "400 \<le> status_code r2" and "status_code r2 < 600"
  shows "get_contract_metadata E s a =
     (Inr None, s\<lparr>requests := requests s @ [full_match_call s a, partial_match_call s a]\<rparr>)"
proof -
  have first: "no_document (http_get E (requests s) (full_match_call s a))"
    using assms(2,3,4) by (simp add: no_document_def ok_def)
  have second:
    "no_document (http_get E (requests s @ [full_match_call s a]) (partial_match_call s a))"
    using assms(5,6,7) by (simp add: no_document_def ok_def)
  show ?thesis
    using gcm_full_nothing [OF assms(1) first] try_partial_nothing [OF second] by simp
qed

theorem both_error_statuses_give_None_witness:
  "fast_is_checksum_address env_not_found example_address
   \<and> http_get env_not_found (requests example_state)
        (full_match_call example_state example_address) = Inr not_found_response
   \<and> 400 \<le> status_code not_found_response \<and> status_code not_found_response < 600
   \<and> http_get env_not_found
        (requests example_state @ [full_match_call example_state example_address])
        (partial_match_call example_state example_address) = Inr not_found_response
   \<and> get_contract_metadata env_not_found example_state example_address =
       (Inr None,
        example_state\<lparr>requests := requests example_state @
          [full_match_call example_state example_address,
           partial_match_call example_state example_address]\<rparr>)"
proof -
  have chk: "fast_is_checksum_address env_not_found example_address"
    by (simp add: env_not_found_def chk_scripted)
  have g1: "http_get env_not_found (requests example_state)
      (full_match_call example_state example_address) = Inr not_found_response"
    by (simp add: env_not_found_def get_scripted_first)
  have g2: "http_get env_not_found
      (requests example_state @ [full_match_call example_state example_address])
      (partial_match_call example_state example_address) = Inr not_found_response"
    by (simp add: env_not_found_def get_scripted_second)
  have lo: "400 \<le> status_code not_found_response"
    and hi: "status_code not_found_response < 600"
    by (simp_all add: not_found_response_def)
  show ?thesis
    using chk g1 g2 lo hi both_error_statuses_give_None [OF chk g1 lo hi g2 lo hi] by simp
qed

text \<open>
  C2, as the claim states it, fails: \<^verbatim>\<open>_do_request\<close> calls \<^verbatim>\<open>session.get\<close> outside any
  \<^verbatim>\<open>try\<close>, so an exception of the transport leaves the method. With the connection refused
  at the first GET the call raises and makes no second GET; with a 404 followed by a timeout
  the call raises the timeout instead of returning \<^verbatim>\<open>None\<close>.
\<close>

theorem transport_error_counterexample:
  "fst (get_contract_metadata env_refused example_state example_address) = Inl ConnectionError
   \<and> requests (snd (get_contract_metadata env_refused example_state example_address))
       = [full_match_call example_state example_address]
   \<and> fst (get_contract_metadata env_timeout_on_partial example_state example_address)
       = Inl Timeout"
proof -
  have a: "get_contract_metadata env_refused example_state example_address =
      (Inl ConnectionError,
       example_state\<lparr>requests := requests example_state @
         [full_match_call example_state example_address]\<rparr>)"
    unfolding env_refused_def
    by (rule gcm_full_raises [OF chk_scripted get_scripted_first])
  have n: "no_document (http_get env_timeout_on_partial (requests example_state)
      (full_match_call example_state example_address))"
    unfolding env_timeout_on_partial_def by (simp only: get_scripted_first no_document_not_found)
  have b: "get_contract_metadata env_timeout_on_partial example_state example_address =
      (Inl Timeout,
       example_state\<lparr>requests := requests example_state @
         [full_match_call example_state example_address,
          partial_match_call example_state example_address]\<rparr>)"
    using gcm_full_nothing [OF _ n]
      try_partial_raises [of env_timeout_on_partial example_state example_address Timeout]
    by (simp add: env_timeout_on_partial_def chk_scripted get_scripted_second)
  show ?thesis using a b by (simp add: example_state_def)
qed

text \<open>
  C2, amended: a GET that fails at the network level is not caught. The exception leaves
  \<^verbatim>\<open>get_contract_metadata\<close> as it is and no further match type is tried: raised by the
  full-match GET it ends the call after one request, raised by the partial-match GET (made
  because the full-match attempt gave no document) it ends the call after two.
\<close>

theorem transport_error_propagates:
  assumes "fast_is_checksum_address E a"
  shows "(http_get E (requests s) (full_match_call s a) = Inl e \<longrightarrow>
            get_contract_metadata E s a =
              (Inl e, s\<lparr>requests := requests s @ [full_match_call s a]\<rparr>))
       \<and> (no_document (http_get E (requests s) (full_match_call s a))
          \<and> http_get E (requests s @ [full_match_call s a]) (partial_match_call s a) = Inl e \<longrightarrow>
            get_contract_metadata E s a =
              (Inl e, s\<lparr>requests := requests s @
                 [full_match_call s a, partial_match_call s a]\<rparr>))"
  using gcm_full_raises [OF assms] gcm_full_nothing [OF assms] try_partial_raises [of E s a e]
  by simp

theorem transport_error_propagates_witness:
  "(fast_is_checksum_address env_refused example_address
    \<and> http_get env_refused (requests example_state)
         (full_match_call example_state example_address) = Inl ConnectionError
    \<and> get_contract_metadata env_refused example_state example_address =
         (Inl ConnectionError,
          example_state\<lparr>requests := requests example_state @
            [full_match_call example_state example_address]\<rparr>))
   \<and> (fast_is_checksum_address env_timeout_on_partial example_address
    \<and> no_document (http_get env_timeout_on_partial (requests example_state)
         (full_match_call example_state example_address))
    \<and> http_get env_timeout_on_partial
         (requests example_state @ [full_match_call example_state example_address])
         (partial_match_call example_state example_address) = Inl Timeout
    \<and> get_contract_metadata env_timeout_on_partial example_state example_address =
         (Inl Timeout,
          example_state\<lparr>requests := requests example_state @
            [full_match_call example_state example_address,
             partial_match_call example_state example_address]\<rparr>))"
proof -
  have c1: "fast_is_checksum_address env_refused example_address"
    by (simp add: env_refused_def chk_scripted)
  have g1: "http_get env_refused (requests example_state)
         (full_match_call example_state example_address) = Inl ConnectionError"
    by (simp add: env_refused_def get_scripted_first)
  have c2: "fast_is_checksum_address env_timeout_on_partial example_address"
    by (simp add: env_timeout_on_partial_def chk_scripted)
  have n2: "no_document (http_get env_timeout_on_partial (requests example_state)
         (full_match_call example_state example_address))"
    by (simp add: env_timeout_on_partial_def get_scripted_first no_document_not_found)
  have g2: "http_get env_timeout_on_partial
         (requests example_state @ [full_match_call example_state example_address])
         (partial_match_call example_state example_address) = Inl Timeout"
    by (simp add: env_timeout_on_partial_def get_scripted_second)
  show ?thesis
    using c1 g1 c2 n2 g2
      transport_error_propagates [OF c1, of example_state ConnectionError]
      transport_error_propagates [OF c2, of example_state Timeout]
    by simp
qed

lemma example_document_abi:
  "get_abi_from_metadata example_document = Inr (PList [PDict [(''type'', PStr ''fallback'')]])"
  by (simp add: get_abi_from_metadata_def example_document_def)

lemma example_document_name:
  "get_name_from_metadata example_document = Inr (PStr ''Token'')"
  by (simp add: get_name_from_metadata_def example_document_def)

section \<open>Order of the attempts\<close>



section \<open>Malformed and empty documents\<close>

lemma get_abi_has_output_abi:
  "has_output_abi v \<longleftrightarrow> (\<exists>ab. get_abi_from_metadata v = Inr ab)"
proof (cases v)
  case (PDict kvs)
  show ?thesis
  proof (cases "map_of kvs ''output''")
    case None
    with PDict show ?thesis by (simp add: has_output_abi_def get_abi_from_metadata_def)
  next
    case (Some out)
    with PDict show ?thesis
      by (cases out) (auto simp: has_output_abi_def get_abi_from_metadata_def split: option.splits)
  qed
qed (simp_all add: has_output_abi_def get_abi_from_metadata_def)

lemma build_record_lacking:
  "\<not> has_output_abi v \<Longrightarrow> \<exists>e. build_record mt v = Inl e"
  by (cases "get_abi_from_metadata v") (auto simp: get_abi_has_output_abi build_record_def)

lemma malformed_cases:
  assumes "malformed r"
  obtains (bad_json) e where "ok r" "json r = Inl e"
  | (lacking) v where "ok r" "json r = Inr v" "truthy v" "\<not> has_output_abi v"
  using assms by (cases "json r") (auto simp: malformed_def)

lemma no_document_empty_object: "no_document (Inr (ok_response (PDict [])))"
  by (simp add: no_document_def ok_response_def ok_def)

text \<open>
  C4, as the claim states it, fails: a successful response whose body is the empty object
  lacks the \<^verbatim>\<open>output\<close> key, yet \<^verbatim>\<open>if metadata:\<close> sends it the way of a 404. With both
  endpoints answering 200 and \<^verbatim>\<open>{}\<close> the call falls back to the partial-match GET and
  returns \<^verbatim>\<open>None\<close>.
\<close>

theorem malformed_response_counterexample:
  "ok (ok_response (PDict [])) \<and> json (ok_response (PDict [])) = Inr (PDict [])
   \<and> \<not> has_output_abi (PDict [])
   \<and> get_contract_metadata env_empty_objects example_state example_address =
       (Inr None,
        example_state\<lparr>requests := [full_match_call example_state example_address,
                                   partial_match_call example_state example_address]\<rparr>)"
proof -
  have n1: "no_document (http_get env_empty_objects (requests example_state)
      (full_match_call example_state example_address))"
    by (simp add: env_empty_objects_def get_scripted_first no_document_empty_object)
  have n2: "no_document (http_get env_empty_objects
      (requests example_state @ [full_match_call example_state example_address])
      (partial_match_call example_state example_address))"
    by (simp add: env_empty_objects_def get_scripted_second no_document_empty_object)
  have c: "fast_is_checksum_address env_empty_objects example_address"
    by (simp add: env_empty_objects_def chk_scripted)
  show ?thesis
    using gcm_full_nothing [OF c n1] try_partial_nothing [OF n2]
    by (simp add: ok_response_def ok_def has_output_abi_def example_state_def)
qed

text \<open>
  C4, amended: an attempt whose response is successful and whose body is not valid JSON, or
  decodes to a value that tests true and lacks \<^verbatim>\<open>output.abi\<close>, ends the call with an error:
  the call returns no \<^verbatim>\<open>None\<close> and tries no further match type. This holds for the
  full-match attempt and for the partial-match attempt alike.
\<close>

theorem malformed_response_is_fatal:
  assumes chk: "fast_is_checksum_address E a"
  shows "(http_get E (requests s) (full_match_call s a) = Inr r \<and> malformed r \<longrightarrow>
           (\<exists>e. get_contract_metadata E s a =
              (Inl e, s\<lparr>requests := requests s @ [full_match_call s a]\<rparr>)))
       \<and> (no_document (http_get E (requests s) (full_match_call s a))
          \<and> http_get E (requests s @ [full_match_call s a]) (partial_match_call s a) = Inr r
          \<and> malformed r \<longrightarrow>
           (\<exists>e. get_contract_metadata E s a =
              (Inl e, s\<lparr>requests := requests s @
                 [full_match_call s a, partial_match_call s a]\<rparr>)))"
proof (intro conjI impI)
  assume h: "http_get E (requests s) (full_match_call s a) = Inr r \<and> malformed r"
  then have m: "malformed r" and g: "http_get E (requests s) (full_match_call s a) = Inr r"
    by simp_all
  from m show "\<exists>e. get_contract_metadata E s a =
      (Inl e, s\<lparr>requests := requests s @ [full_match_call s a]\<rparr>)"
  proof (cases rule: malformed_cases)
    case (bad_json e)
    then show ?thesis using gcm_full_bad_json [OF chk g] by blast
  next
    case (lacking v)
    then show ?thesis
      using gcm_full_document [OF chk g] build_record_lacking [of v "''full_match''"] by auto
  qed
next
  assume h: "no_document (http_get E (requests s) (full_match_call s a))
          \<and> http_get E (requests s @ [full_match_call s a]) (partial_match_call s a) = Inr r
          \<and> malformed r"
  then have m: "malformed r"
    and n: "no_document (http_get E (requests s) (full_match_call s a))"
    and g: "http_get E (requests s @ [full_match_call s a]) (partial_match_call s a) = Inr r"
    by simp_all
  note go = gcm_full_nothing [OF chk n]
  from m show "\<exists>e. get_contract_metadata E s a =
      (Inl e, s\<lparr>requests := requests s @ [full_match_call s a, partial_match_call s a]\<rparr>)"
  proof (cases rule: malformed_cases)
    case (bad_json e)
    then show ?thesis using go try_partial_bad_json [OF g] by simp
  next
    case (lacking v)
    then show ?thesis
      using go try_partial_document [OF g] build_record_lacking [of v "''partial_match''"]
      by auto
  qed
qed

theorem malformed_response_is_fatal_witness:
  "(fast_is_checksum_address env_no_output example_address
    \<and> http_get env_no_output (requests example_state)
         (full_match_call example_state example_address)
        = Inr (ok_response (PDict [(''settings'', PDict [])]))
    \<and> malformed (ok_response (PDict [(''settings'', PDict [])]))
    \<and> (\<exists>e. get_contract_metadata env_no_output example_state example_address =
         (Inl e, example_state\<lparr>requests := requests example_state @
            [full_match_call example_state example_address]\<rparr>)))
   \<and> (fast_is_checksum_address env_html_on_partial example_address
    \<and> no_document (http_get env_html_on_partial (requests example_state)
         (full_match_call example_state example_address))
    \<and> http_get env_html_on_partial
         (requests example_state @ [full_match_call example_state example_address])
         (partial_match_call example_state example_address)
        = Inr \<lparr>status_code = 200, json = Inl JSONDecodeError\<rparr>
    \<and> malformed \<lparr>status_code = 200, json = Inl JSONDecodeError\<rparr>
    \<and> (\<exists>e. get_contract_metadata env_html_on_partial example_state example_address =
         (Inl e, example_state\<lparr>requests := requests example_state @
            [full_match_call example_state example_address,
             partial_match_call example_state example_address]\<rparr>)))"
proof -
  have c1: "fast_is_checksum_address env_no_output example_address"
    by (simp add: env_no_output_def chk_scripted)
  have g1: "http_get env_no_output (requests example_state)
         (full_match_call example_state example_address)
        = Inr (ok_response (PDict [(''settings'', PDict [])]))"
    by (simp add: env_no_output_def get_scripted_first)
  have m1: "malformed (ok_response (PDict [(''settings'', PDict [])]))"
    by (simp add: malformed_def ok_response_def ok_def has_output_abi_def)
  have c2: "fast_is_checksum_address env_html_on_partial example_address"
    by (simp add: env_html_on_partial_def chk_scripted)
  have n2: "no_document (http_get env_html_on_partial (requests example_state)
         (full_match_call example_state example_address))"
    by (simp add: env_html_on_partial_def get_scripted_first no_document_not_found)
  have g2: "http_get env_html_on_partial
         (requests example_state @ [full_match_call example_state example_address])
         (partial_match_call example_state example_address)
        = Inr \<lparr>status_code = 200, json = Inl JSONDecodeError\<rparr>"
    by (simp add: env_html_on_partial_def get_scripted_second)
  have m2: "malformed \<lparr>status_code = 200, json = Inl JSONDecodeError\<rparr>"
    by (simp add: malformed_def ok_def)
  show ?thesis
    using c1 g1 m1 c2 n2 g2 m2
      malformed_response_is_fatal [OF c1, of example_state "ok_response (PDict [(''settings'', PDict [])])"]
      malformed_response_is_fatal [OF c2, of example_state "\<lparr>status_code = 200, json = Inl JSONDecodeError\<rparr>"]
    by simp
qed

lemma try_single_env:
  "http_get E' (requests s) (the_call s (metadata_url (self s) mt a))
     = http_get E (requests s) (the_call s (metadata_url (self s) mt a)) \<Longrightarrow>
   try_match_types E' a [mt] s = try_match_types E a [mt] s"
  by (simp add: try_match_types.simps(2) do_request_def Let_def split: sum.splits)

lemma try_single_requests:
  "requests (snd (try_match_types E a [mt] s))
     = requests s @ [the_call s (metadata_url (self s) mt a)]"
  by (cases rule: try_cases [of E s "the_call s (metadata_url (self s) mt a)"])
     (simp_all add: try_raises try_bad_json try_document try_no_document)

lemma no_document_falsy:
  "ok r \<Longrightarrow> json r = Inr v \<Longrightarrow> \<not> truthy v \<Longrightarrow> no_document (Inr r)"
  by (simp add: no_document_def)

text \<open>
  C8: a successful response whose body decodes to a value that tests false (the empty object,
  \<^verbatim>\<open>null\<close>, \<^verbatim>\<open>false\<close>, \<^verbatim>\<open>0\<close>, an empty list) counts as not found, although the body lacks
  \<^verbatim>\<open>output.abi\<close>. On the full-match attempt the call goes on to the partial-match GET and
  behaves exactly as if the full-match endpoint had answered 404; on the partial-match
  attempt the call returns \<^verbatim>\<open>None\<close>. No error comes from such a body.
\<close>

theorem falsy_body_is_not_found:
  assumes chk: "fast_is_checksum_address E a"
  shows "(http_get E (requests s) (full_match_call s a) = Inr r \<and> ok r \<and> json r = Inr v
          \<and> \<not> truthy v \<longrightarrow>
           requests (snd (get_contract_metadata E s a))
             = requests s @ [full_match_call s a, partial_match_call s a]
           \<and> get_contract_metadata E s a =
               get_contract_metadata
                 (with_response E (requests s) (full_match_call s a) not_found_response) s a)
       \<and> (no_document (http_get E (requests s) (full_match_call s a))
          \<and> http_get E (requests s @ [full_match_call s a]) (partial_match_call s a) = Inr r
          \<and> ok r \<and> json r = Inr v \<and> \<not> truthy v \<longrightarrow>
           get_contract_metadata E s a =
             (Inr None, s\<lparr>requests := requests s @
                [full_match_call s a, partial_match_call s a]\<rparr>))
       \<and> \<not> truthy (PDict []) \<and> \<not> truthy PNone \<and> \<not> truthy (PBool False)
       \<and> \<not> truthy (PInt 0) \<and> \<not> truthy (PList [])"
proof (intro conjI impI)
  let ?E' = "with_response E (requests s) (full_match_call s a) not_found_response"
  let ?s1 = "s\<lparr>requests := requests s @ [full_match_call s a]\<rparr>"
  assume h: "http_get E (requests s) (full_match_call s a) = Inr r \<and> ok r \<and> json r = Inr v
          \<and> \<not> truthy v"
  then have n: "no_document (http_get E (requests s) (full_match_call s a))"
    by (simp add: no_document_falsy)
  note go = gcm_full_nothing [OF chk n]
  show "requests (snd (get_contract_metadata E s a))
          = requests s @ [full_match_call s a, partial_match_call s a]"
    by (simp add: go try_single_requests partial_call_after partial_match_call_def)
  have chk': "fast_is_checksum_address ?E' a"
    using chk by (simp add: with_response_def)
  have n': "no_document (http_get ?E' (requests s) (full_match_call s a))"
    by (simp add: with_response_def no_document_not_found)
  have same: "try_match_types ?E' a [''partial_match''] ?s1
      = try_match_types E a [''partial_match''] ?s1"
    by (rule try_single_env) (simp add: with_response_def)
  show "get_contract_metadata E s a = get_contract_metadata ?E' s a"
    using go gcm_full_nothing [OF chk' n'] same by simp
next
  assume h: "no_document (http_get E (requests s) (full_match_call s a))
          \<and> http_get E (requests s @ [full_match_call s a]) (partial_match_call s a) = Inr r
          \<and> ok r \<and> json r = Inr v \<and> \<not> truthy v"
  then have n1: "no_document (http_get E (requests s) (full_match_call s a))"
    and n2: "no_document
      (http_get E (requests s @ [full_match_call s a]) (partial_match_call s a))"
    by (simp_all add: no_document_falsy)
  show "get_contract_metadata E s a =
      (Inr None, s\<lparr>requests := requests s @ [full_match_call s a, partial_match_call s a]\<rparr>)"
    using gcm_full_nothing [OF chk n1] try_partial_nothing [OF n2] by simp
qed simp_all

theorem falsy_body_is_not_found_witness:
  "(fast_is_checksum_address env_empty_then_document example_address
    \<and> http_get env_empty_then_document (requests example_state)
         (full_match_call example_state example_address) = Inr (ok_response (PDict []))
    \<and> ok (ok_response (PDict [])) \<and> json (ok_response (PDict [])) = Inr (PDict [])
    \<and> \<not> truthy (PDict [])
    \<and> requests (snd (get_contract_metadata env_empty_then_document example_state
          example_address))
        = requests example_state @ [full_match_call example_state example_address,
            partial_match_call example_state example_address]
    \<and> get_contract_metadata env_empty_then_document example_state example_address =
        get_contract_metadata
          (with_response env_empty_then_document (requests example_state)
             (full_match_call example_state example_address) not_found_response)
          example_state example_address)
   \<and> (fast_is_checksum_address env_null_on_partial example_address
    \<and> no_document (http_get env_null_on_partial (requests example_state)
         (full_match_call example_state example_address))
    \<and> http_get env_null_on_partial
         (requests example_state @ [full_match_call example_state example_address])
         (partial_match_call example_state example_address) = Inr (ok_response PNone)
    \<and> ok (ok_response PNone) \<and> json (ok_response PNone) = Inr PNone \<and> \<not> truthy PNone
    \<and> get_contract_metadata env_null_on_partial example_state example_address =
         (Inr None,
          example_state\<lparr>requests := requests example_state @
            [full_match_call example_state example_address,
             partial_match_call example_state example_address]\<rparr>))"
proof -
  have c1: "fast_is_checksum_address env_empty_then_document example_address"
    by (simp add: env_empty_then_document_def chk_scripted)
  have g1: "http_get env_empty_then_document (requests example_state)
         (full_match_call example_state example_address) = Inr (ok_response (PDict []))"
    by (simp add: env_empty_then_document_def get_scripted_first)
  have r1: "ok (ok_response (PDict []))" "json (ok_response (PDict [])) = Inr (PDict [])"
    "\<not> truthy (PDict [])"
    by (simp_all add: ok_response_def ok_def)
  have c2: "fast_is_checksum_address env_null_on_partial example_address"
    by (simp add: env_null_on_partial_def chk_scripted)
  have n2: "no_document (http_get env_null_on_partial (requests example_state)
         (full_match_call example_state example_address))"
    by (simp add: env_null_on_partial_def get_scripted_first no_document_not_found)
  have g2: "http_get env_null_on_partial
         (requests example_state @ [full_match_call example_state example_address])
         (partial_match_call example_state example_address) = Inr (ok_response PNone)"
    by (simp add: env_null_on_partial_def get_scripted_second)
  have r2: "ok (ok_response PNone)" "json (ok_response PNone) = Inr PNone" "\<not> truthy PNone"
    by (simp_all add: ok_response_def ok_def)
  have a: "requests (snd (get_contract_metadata env_empty_then_document example_state
          example_address))
        = requests example_state @ [full_match_call example_state example_address,
            partial_match_call example_state example_address]
    \<and> get_contract_metadata env_empty_then_document example_state example_address =
        get_contract_metadata
          (with_response env_empty_then_document (requests example_state)
             (full_match_call example_state example_address) not_found_response)
          example_state example_address"
    using falsy_body_is_not_found [OF c1, of example_state "ok_response (PDict [])" "PDict []"]
      g1 r1 by blast
  have b: "get_contract_metadata env_null_on_partial example_state example_address =
         (Inr None,
          example_state\<lparr>requests := requests example_state @
            [full_match_call example_state example_address,
             partial_match_call example_state example_address]\<rparr>)"
    using falsy_body_is_not_found [OF c2, of example_state "ok_response PNone" PNone]
      n2 g2 r2 by blast
  show ?thesis
    using c1 g1 r1 c2 n2 g2 r2 a b by blast
qed

section \<open>Where the record comes from\<close>

lemma abi_source:
  assumes "get_abi_from_metadata v = Inr ab"
  shows "\<exists>out. field v ''output'' = Some out \<and> field out ''abi'' = Some ab"
proof (cases v)
  case (PDict kvs)
  show ?thesis
  proof (cases "map_of kvs ''output''")
    case None
    with PDict assms show ?thesis by (simp add: get_abi_from_metadata_def)
  next
    case (Some out)
    with PDict assms show ?thesis
      by (cases out) (auto simp: get_abi_from_metadata_def field_def split: option.splits)
  qed
qed (use assms in \<open>simp_all add: get_abi_from_metadata_def\<close>)

lemma name_source:
  assumes "get_name_from_metadata v = Inr n"
  shows "\<exists>skvs items. field v ''settings'' = Some (PDict skvs)
      \<and> (map_of skvs ''compilationTarget'' = None \<and> items = []
         \<or> map_of skvs ''compilationTarget'' = Some (PDict items))
      \<and> n = (if items = [] then PNone else snd (hd items))"
proof -
  from assms obtain st where st: "getitem v ''settings'' = Inr st"
    by (cases "getitem v ''settings''") (simp_all add: get_name_from_metadata_def)
  then obtain kvs where v: "v = PDict kvs" and f: "map_of kvs ''settings'' = Some st"
    by (cases v) (auto split: option.splits)
  from assms st obtain tg where tg: "dict_get st ''compilationTarget'' (PDict []) = Inr tg"
    by (cases "dict_get st ''compilationTarget'' (PDict [])")
       (simp_all add: get_name_from_metadata_def)
  then obtain skvs where s: "st = PDict skvs" by (cases st) auto
  from assms st tg obtain vals where vals: "dict_values tg = Inr vals"
    by (cases "dict_values tg") (simp_all add: get_name_from_metadata_def)
  then obtain items where t: "tg = PDict items" and vs: "vals = map snd items"
    by (cases tg) auto
  have n: "n = (if items = [] then PNone else snd (hd items))"
    using assms st tg vals vs by (auto simp: get_name_from_metadata_def hd_map)
  have "map_of skvs ''compilationTarget'' = None \<and> items = []
         \<or> map_of skvs ''compilationTarget'' = Some (PDict items)"
    using tg s t by (auto split: option.splits)
  with v f s n show ?thesis by (auto simp: field_def)
qed

lemma record_source:
  assumes "get_contract_metadata E s a = (Inr (Some m), s')"
  shows "\<exists>v. last_document E s' = Some v \<and> truthy v
     \<and> get_abi_from_metadata v = Inr (abi m) \<and> get_name_from_metadata v = Inr (name m)"
proof -
  have chk: "fast_is_checksum_address E a"
    using assms by (auto simp: get_contract_metadata_def split: if_splits)
  from chk show ?thesis
  proof (cases rule: gcm_cases [where s = s])
    case (full_document r v)
    then show ?thesis
      using assms build_record_Some [of "''full_match''" v m]
      by (auto simp: last_document_def)
  next
    case (partial_document r v)
    then show ?thesis
      using assms build_record_Some [of "''partial_match''" v m]
      by (auto simp: last_document_def butlast_append)
  qed (use assms in simp_all)
qed

lemma gcm_env_empty_target:
  "get_contract_metadata env_empty_target example_state example_address =
     (Inr (Some \<lparr>name = PNone, abi = PList [PDict [(''type'', PStr ''fallback'')]],
                 partial_match = False\<rparr>),
      example_state\<lparr>requests := requests example_state @
        [full_match_call example_state example_address]\<rparr>)"
proof -
  have c: "fast_is_checksum_address env_empty_target example_address"
    by (simp add: env_empty_target_def chk_scripted)
  have g: "http_get env_empty_target (requests example_state)
      (full_match_call example_state example_address) = Inr (ok_response document_empty_target)"
    by (simp add: env_empty_target_def get_scripted_first)
  have d: "ok (ok_response document_empty_target)"
    "json (ok_response document_empty_target) = Inr document_empty_target"
    "truthy document_empty_target"
    by (simp_all add: ok_response_def ok_def document_empty_target_def)
  have b: "build_record ''full_match'' document_empty_target =
      Inr (Some \<lparr>name = PNone, abi = PList [PDict [(''type'', PStr ''fallback'')]],
                 partial_match = False\<rparr>)"
    by (simp add: build_record_def get_abi_from_metadata_def get_name_from_metadata_def
        document_empty_target_def)
  show ?thesis using gcm_full_document [OF c g d] b by simp
qed

lemma gcm_env_full_match:
  "get_contract_metadata env_full_match example_state example_address =
     (Inr (Some \<lparr>name = PStr ''Token'', abi = PList [PDict [(''type'', PStr ''fallback'')]],
                 partial_match = False\<rparr>),
      example_state\<lparr>requests := requests example_state @
        [full_match_call example_state example_address]\<rparr>)"
proof -
  have c: "fast_is_checksum_address env_full_match example_address"
    by (simp add: env_full_match_def chk_scripted)
  have g: "http_get env_full_match (requests example_state)
      (full_match_call example_state example_address) = Inr (ok_response example_document)"
    by (simp add: env_full_match_def get_scripted_first)
  have d: "ok (ok_response example_document)"
    "json (ok_response example_document) = Inr example_document"
    "truthy example_document"
    by (simp_all add: ok_response_def ok_def example_document_def)
  show ?thesis
    using gcm_full_document [OF c g d]
      build_record_ok [OF example_document_abi example_document_name, of "''full_match''"]
    by simp
qed

text \<open>
  C6: a call that returns a record took it from the document of its last GET. The record's
  \<^verbatim>\<open>abi\<close> is the document's \<^verbatim>\<open>output.abi\<close>. The document's \<^verbatim>\<open>settings\<close> is a mapping; when it
  has no \<^verbatim>\<open>compilationTarget\<close> key, or the \<^verbatim>\<open>compilationTarget\<close> mapping is empty, the record's
  name is \<^verbatim>\<open>None\<close>, and when the mapping has an entry the name is the first value.
\<close>

theorem name_from_compilation_target:
  assumes "get_contract_metadata E s a = (Inr (Some m), s')"
  shows "\<exists>v out skvs items. last_document E s' = Some v
     \<and> field v ''output'' = Some out \<and> field out ''abi'' = Some (abi m)
     \<and> field v ''settings'' = Some (PDict skvs)
     \<and> (map_of skvs ''compilationTarget'' = None \<and> items = []
        \<or> map_of skvs ''compilationTarget'' = Some (PDict items))
     \<and> name m = (if items = [] then PNone else snd (hd items))"
proof -
  from record_source [OF assms] obtain v where
    v: "last_document E s' = Some v" and
    ab: "get_abi_from_metadata v = Inr (abi m)" and
    nm: "get_name_from_metadata v = Inr (name m)" by blast
  from abi_source [OF ab] name_source [OF nm] v show ?thesis by blast
qed


theorem name_from_compilation_target_witness:
  "(get_contract_metadata env_empty_target example_state example_address =
     (Inr (Some \<lparr>name = PNone, abi = PList [PDict [(''type'', PStr ''fallback'')]],
                 partial_match = False\<rparr>),
      example_state\<lparr>requests := requests example_state @
        [full_match_call example_state example_address]\<rparr>)
    \<and> (\<exists>v out skvs items.
         last_document env_empty_target
           (example_state\<lparr>requests := requests example_state @
              [full_match_call example_state example_address]\<rparr>) = Some v
       \<and> field v ''output'' = Some out
       \<and> field out ''abi'' = Some (PList [PDict [(''type'', PStr ''fallback'')]])
       \<and> field v ''settings'' = Some (PDict skvs)
       \<and> (map_of skvs ''compilationTarget'' = None \<and> items = []
          \<or> map_of skvs ''compilationTarget'' = Some (PDict items))
       \<and> PNone = (if items = [] then PNone else snd (hd items))))
   \<and> (get_contract_metadata env_full_match example_state example_address =
     (Inr (Some \<lparr>name = PStr ''Token'', abi = PList [PDict [(''type'', PStr ''fallback'')]],
                 partial_match = False\<rparr>),
      example_state\<lparr>requests := requests example_state @
        [full_match_call example_state example_address]\<rparr>)
    \<and> (\<exists>v out skvs items.
         last_document env_full_match
           (example_state\<lparr>requests := requests example_state @
              [full_match_call example_state example_address]\<rparr>) = Some v
       \<and> field v ''output'' = Some out
       \<and> field out ''abi'' = Some (PList [PDict [(''type'', PStr ''fallback'')]])
       \<and> field v ''settings'' = Some (PDict skvs)
       \<and> (map_of skvs ''compilationTarget'' = None \<and> items = []
          \<or> map_of skvs ''compilationTarget'' = Some (PDict items))
       \<and> PStr ''Token'' = (if items = [] then PNone else snd (hd items))))"
  using gcm_env_empty_target gcm_env_full_match
    name_from_compilation_target [OF gcm_env_empty_target]
    name_from_compilation_target [OF gcm_env_full_match]
  by simp

section \<open>Documents without settings\<close>

lemma build_record_no_settings:
  assumes "has_output_abi v" and "field v ''settings'' = None"
  shows "build_record mt v = Inl (KeyError ''settings'')"
proof -
  from assms(1) obtain ab where ab: "get_abi_from_metadata v = Inr ab"
    by (auto simp: get_abi_has_output_abi)
  from assms(1) obtain kvs where v: "v = PDict kvs"
    by (cases v) (simp_all add: has_output_abi_def)
  with assms(2) have "getitem v ''settings'' = Inl (KeyError ''settings'')"
    by (simp add: field_def)
  then have "get_name_from_metadata v = Inl (KeyError ''settings'')"
    by (simp add: get_name_from_metadata_def)
  with ab show ?thesis by (simp add: build_record_def)
qed

text \<open>
  C9, as the claim states it, fails in its last part: a missing or empty
  \<^verbatim>\<open>compilationTarget\<close> is not the only way to the name \<^verbatim>\<open>None\<close>. The method returns the
  first value of the mapping whatever it is, so a mapping whose first value is \<^verbatim>\<open>null\<close>
  gives a record with the name \<^verbatim>\<open>None\<close> although \<^verbatim>\<open>compilationTarget\<close> is there and has an
  entry.
\<close>

theorem missing_settings_counterexample:
  "get_contract_metadata env_null_name example_state example_address =
     (Inr (Some \<lparr>name = PNone, abi = PList [PDict [(''type'', PStr ''fallback'')]],
                 partial_match = False\<rparr>),
      example_state\<lparr>requests := [full_match_call example_state example_address]\<rparr>)
   \<and> last_document env_null_name
        (example_state\<lparr>requests := [full_match_call example_state example_address]\<rparr>)
       = Some document_null_name
   \<and> field document_null_name ''settings''
       = Some (PDict [(''compilationTarget'', PDict [(''contracts/Token.sol'', PNone)])])"
proof -
  have c: "fast_is_checksum_address env_null_name example_address"
    by (simp add: env_null_name_def chk_scripted)
  have g: "http_get env_null_name (requests example_state)
      (full_match_call example_state example_address) = Inr (ok_response document_null_name)"
    by (simp add: env_null_name_def get_scripted_first)
  have d: "ok (ok_response document_null_name)"
    "json (ok_response document_null_name) = Inr document_null_name"
    "truthy document_null_name"
    by (simp_all add: ok_response_def ok_def document_null_name_def)
  have b: "build_record ''full_match'' document_null_name =
      Inr (Some \<lparr>name = PNone, abi = PList [PDict [(''type'', PStr ''fallback'')]],
                 partial_match = False\<rparr>)"
    by (simp add: build_record_def get_abi_from_metadata_def get_name_from_metadata_def
        document_null_name_def)
  have r: "requests example_state = []" by (simp add: example_state_def)
  have l: "last_document env_null_name
        (example_state\<lparr>requests := [full_match_call example_state example_address]\<rparr>)
       = Some document_null_name"
    using g d by (simp add: last_document_def r)
  have f: "field document_null_name ''settings''
       = Some (PDict [(''compilationTarget'', PDict [(''contracts/Token.sol'', PNone)])])"
    by (simp add: field_def document_null_name_def)
  show ?thesis using gcm_full_document [OF c g d] b l f by (simp add: r)
qed

text \<open>
  C9, amended: an attempt that yields a document which tests true, has \<^verbatim>\<open>output.abi\<close> and
  has no \<^verbatim>\<open>settings\<close> key ends the call with \<^verbatim>\<open>KeyError\<close> for that key, on either attempt;
  no record with the name \<^verbatim>\<open>None\<close> is returned. A returned record has the name \<^verbatim>\<open>None\<close>
  only when the document's \<^verbatim>\<open>settings\<close> is a mapping in which \<^verbatim>\<open>compilationTarget\<close> is
  missing, is empty, or has \<^verbatim>\<open>null\<close> as its first value.
\<close>

theorem missing_settings_raises:
  assumes chk: "fast_is_checksum_address E a"
  shows "(http_get E (requests s) (full_match_call s a) = Inr r \<and> ok r \<and> json r = Inr v
          \<and> truthy v \<and> has_output_abi v \<and> field v ''settings'' = None \<longrightarrow>
           get_contract_metadata E s a =
             (Inl (KeyError ''settings''),
              s\<lparr>requests := requests s @ [full_match_call s a]\<rparr>))
       \<and> (no_document (http_get E (requests s) (full_match_call s a))
          \<and> http_get E (requests s @ [full_match_call s a]) (partial_match_call s a) = Inr r
          \<and> ok r \<and> json r = Inr v
          \<and> truthy v \<and> has_output_abi v \<and> field v ''settings'' = None \<longrightarrow>
           get_contract_metadata E s a =
             (Inl (KeyError ''settings''),
              s\<lparr>requests := requests s @ [full_match_call s a, partial_match_call s a]\<rparr>))
       \<and> (\<forall>m s'. get_contract_metadata E s a = (Inr (Some m), s') \<and> name m = PNone \<longrightarrow>
            (\<exists>v skvs items. last_document E s' = Some v
               \<and> field v ''settings'' = Some (PDict skvs)
               \<and> (map_of skvs ''compilationTarget'' = None \<and> items = []
                  \<or> map_of skvs ''compilationTarget'' = Some (PDict items))
               \<and> (items = [] \<or> snd (hd items) = PNone)))"
proof (intro conjI impI allI)
  assume h: "http_get E (requests s) (full_match_call s a) = Inr r \<and> ok r \<and> json r = Inr v
          \<and> truthy v \<and> has_output_abi v \<and> field v ''settings'' = None"
  then show "get_contract_metadata E s a =
      (Inl (KeyError ''settings''), s\<lparr>requests := requests s @ [full_match_call s a]\<rparr>)"
    using gcm_full_document [OF chk, of s r v] build_record_no_settings [of v "''full_match''"]
    by simp
next
  assume h: "no_document (http_get E (requests s) (full_match_call s a))
          \<and> http_get E (requests s @ [full_match_call s a]) (partial_match_call s a) = Inr r
          \<and> ok r \<and> json r = Inr v
          \<and> truthy v \<and> has_output_abi v \<and> field v ''settings'' = None"
  then show "get_contract_metadata E s a =
      (Inl (KeyError ''settings''),
       s\<lparr>requests := requests s @ [full_match_call s a, partial_match_call s a]\<rparr>)"
    using gcm_full_nothing [OF chk, of s] try_partial_document [of E s a r v]
      build_record_no_settings [of v "''partial_match''"]
    by simp
next
  fix m s'
  assume h: "get_contract_metadata E s a = (Inr (Some m), s') \<and> name m = PNone"
  then have g: "get_contract_metadata E s a = (Inr (Some m), s')" and n: "name m = PNone"
    by simp_all
  from record_source [OF g] obtain v where
    v: "last_document E s' = Some v" and
    nm: "get_name_from_metadata v = Inr (name m)" by blast
  from name_source [OF nm] obtain skvs items where
    "field v ''settings'' = Some (PDict skvs)"
    "map_of skvs ''compilationTarget'' = None \<and> items = []
       \<or> map_of skvs ''compilationTarget'' = Some (PDict items)"
    "name m = (if items = [] then PNone else snd (hd items))" by blast
  with v n show "\<exists>v skvs items. last_document E s' = Some v
               \<and> field v ''settings'' = Some (PDict skvs)
               \<and> (map_of skvs ''compilationTarget'' = None \<and> items = []
                  \<or> map_of skvs ''compilationTarget'' = Some (PDict items))
               \<and> (items = [] \<or> snd (hd items) = PNone)"
    by (metis (full_types))
qed


theorem missing_settings_raises_witness:
  "(fast_is_checksum_address env_no_settings example_address
    \<and> http_get env_no_settings (requests example_state)
         (full_match_call example_state example_address)
        = Inr (ok_response document_no_settings)
    \<and> ok (ok_response document_no_settings)
    \<and> json (ok_response document_no_settings) = Inr document_no_settings
    \<and> truthy document_no_settings \<and> has_output_abi document_no_settings
    \<and> field document_no_settings ''settings'' = None
    \<and> get_contract_metadata env_no_settings example_state example_address =
         (Inl (KeyError ''settings''),
          example_state\<lparr>requests := requests example_state @
            [full_match_call example_state example_address]\<rparr>))
   \<and> (fast_is_checksum_address env_no_settings_on_partial example_address
    \<and> no_document (http_get env_no_settings_on_partial (requests example_state)
         (full_match_call example_state example_address))
    \<and> http_get env_no_settings_on_partial
         (requests example_state @ [full_match_call example_state example_address])
         (partial_match_call example_state example_address)
        = Inr (ok_response document_no_settings)
    \<and> get_contract_metadata env_no_settings_on_partial example_state example_address =
         (Inl (KeyError ''settings''),
          example_state\<lparr>requests := requests example_state @
            [full_match_call example_state example_address,
             partial_match_call example_state example_address]\<rparr>))
   \<and> (get_contract_metadata env_empty_target example_state example_address =
         (Inr (Some \<lparr>name = PNone, abi = PList [PDict [(''type'', PStr ''fallback'')]],
                     partial_match = False\<rparr>),
          example_state\<lparr>requests := requests example_state @
            [full_match_call example_state example_address]\<rparr>)
    \<and> (\<exists>v skvs items.
          last_document env_empty_target
            (example_state\<lparr>requests := requests example_state @
               [full_match_call example_state example_address]\<rparr>) = Some v
        \<and> field v ''settings'' = Some (PDict skvs)
        \<and> (map_of skvs ''compilationTarget'' = None \<and> items = []
           \<or> map_of skvs ''compilationTarget'' = Some (PDict items))
        \<and> (items = [] \<or> snd (hd items) = PNone)))"
proof -
  have c1: "fast_is_checksum_address env_no_settings example_address"
    by (simp add: env_no_settings_def chk_scripted)
  have g1: "http_get env_no_settings (requests example_state)
         (full_match_call example_state example_address)
        = Inr (ok_response document_no_settings)"
    by (simp add: env_no_settings_def get_scripted_first)
  have d: "ok (ok_response document_no_settings)"
    "json (ok_response document_no_settings) = Inr document_no_settings"
    "truthy document_no_settings" "has_output_abi document_no_settings"
    "field document_no_settings ''settings'' = None"
    by (simp_all add: ok_response_def ok_def document_no_settings_def has_output_abi_def field_def)
  have c2: "fast_is_checksum_address env_no_settings_on_partial example_address"
    by (simp add: env_no_settings_on_partial_def chk_scripted)
  have n2: "no_document (http_get env_no_settings_on_partial (requests example_state)
         (full_match_call example_state example_address))"
    by (simp add: env_no_settings_on_partial_def get_scripted_first no_document_not_found)
  have g2: "http_get env_no_settings_on_partial
         (requests example_state @ [full_match_call example_state example_address])
         (partial_match_call example_state example_address)
        = Inr (ok_response document_no_settings)"
    by (simp add: env_no_settings_on_partial_def get_scripted_second)
  have c3: "fast_is_checksum_address env_empty_target example_address"
    by (simp add: env_empty_target_def chk_scripted)
  have a: "get_contract_metadata env_no_settings example_state example_address =
         (Inl (KeyError ''settings''),
          example_state\<lparr>requests := requests example_state @
            [full_match_call example_state example_address]\<rparr>)"
    using missing_settings_raises
      [OF c1, of example_state "ok_response document_no_settings" document_no_settings]
      g1 d by blast
  have b: "get_contract_metadata env_no_settings_on_partial example_state example_address =
         (Inl (KeyError ''settings''),
          example_state\<lparr>requests := requests example_state @
            [full_match_call example_state example_address,
             partial_match_call example_state example_address]\<rparr>)"
    using missing_settings_raises
      [OF c2, of example_state "ok_response document_no_settings" document_no_settings]
      n2 g2 d by blast
  have "\<forall>m s'. get_contract_metadata env_empty_target example_state example_address
            = (Inr (Some m), s') \<and> name m = PNone \<longrightarrow>
          (\<exists>v skvs items. last_document env_empty_target s' = Some v
             \<and> field v ''settings'' = Some (PDict skvs)
             \<and> (map_of skvs ''compilationTarget'' = None \<and> items = []
                \<or> map_of skvs ''compilationTarget'' = Some (PDict items))
             \<and> (items = [] \<or> snd (hd items) = PNone))"
    using missing_settings_raises [OF c3, of example_state] by blast
  then have c: "\<exists>v skvs items.
          last_document env_empty_target
            (example_state\<lparr>requests := requests example_state @
               [full_match_call example_state example_address]\<rparr>) = Some v
        \<and> field v ''settings'' = Some (PDict skvs)
        \<and> (map_of skvs ''compilationTarget'' = None \<and> items = []
           \<or> map_of skvs ''compilationTarget'' = Some (PDict items))
        \<and> (items = [] \<or> snd (hd items) = PNone)"
    using gcm_env_empty_target by simp
  show ?thesis
    using c1 g1 d c2 n2 g2 a b c gcm_env_empty_target by blast
qed

section \<open>The requested URLs\<close>




















end
